theory Spec2Isabelle
  imports Complex_Main
begin

unbundle bit_operations_syntax

section \<open>Data model\<close>

text \<open>
  The exporter is one Python module, \<^verbatim>\<open>prometheus_switchbot_exporter.py\<close>. It receives
  advertisement records from bluepy's scanner, decides whether a record comes from a
  Switchbot thermometer, decodes its service data and sets four Prometheus gauges.

  A \<^verbatim>\<open>btle.ScanEntry\<close> is modelled with the attributes the module reads. bluepy's
  \<^verbatim>\<open>getScanData()\<close> returns one triple (tag, description, value text) per key of the
  \<^verbatim>\<open>scanData\<close> dictionary, so the field \<open>scanData\<close> holds that list of triples and the
  dictionary is empty exactly when the list is.
\<close>

record ScanEntry =
  addr :: string
  rssi :: int
  connectable :: bool
  scanData :: "(nat \<times> string \<times> string) list"

text \<open>
  The dataclass \<^verbatim>\<open>Measurement\<close>. The temperature is a Python float; it is modelled by the
  exact real number the float arithmetic approximates.
\<close>

record Measurement =
  battery :: int
  temperature :: real
  humidity :: int

text \<open>
  The exceptions that can travel through the module. Both \<open>ValueError_Malformed\<close> (raised by
  line 85 with the offending service data) and \<open>ValueError_InvalidLiteral\<close> (raised by
  \<^verbatim>\<open>int(..., 16)\<close>) are Python \<^verbatim>\<open>ValueError\<close>s; \<open>AttributeError\<close> is what calling
  \<^verbatim>\<open>startswith\<close> on \<^verbatim>\<open>None\<close> raises. The remaining constructors are bluepy's transport
  exceptions, all direct subclasses of \<^verbatim>\<open>BTLEException\<close>.
\<close>

datatype error =
    AttributeError
  | ValueError_Malformed string
  | ValueError_InvalidLiteral string
  | BTLEDisconnectError
  | BTLEInternalError
  | BTLEManagementError
  | BTLEGattError

definition SWITCHBOT_MANUFACTURER_ID :: string where
  "SWITCHBOT_MANUFACTURER_ID = ''5900''"

definition SWITCHBOT_SERVICE_ID :: string where
  "SWITCHBOT_SERVICE_ID = ''cba20d00-224d-11e6-9fb8-0002a5d5c51b''"

text \<open>The names are UTF-8 encoded; the two umlauts are written as their two bytes.\<close>

definition DEVICE_NAME_MAP :: "(string \<times> string) list" where
  "DEVICE_NAME_MAP =
    [(''f2:0c:69:f4:56:af'', ''Haust'' @ [CHR 0xC3, CHR 0xBC] @ ''r''),
     (''ee:ed:06:15:e1:fc'', ''Terasse''),
     (''f2:8d:34:be:e8:e6'', ''Wohnzimmer''),
     (''e3:06:1c:69:f5:67'', ''B'' @ [CHR 0xC3, CHR 0xBC] @ ''ro''),
     (''ce:e7:0b:2e:1a:fe'', ''Bad'')]"

section \<open>Python string and integer primitives\<close>

text \<open>\<^verbatim>\<open>s.startswith(p)\<close>.\<close>

definition startswith :: "string \<Rightarrow> string \<Rightarrow> bool" where
  "startswith s p = (take (length p) s = p)"

text \<open>The slice \<^verbatim>\<open>s[a:b]\<close> for literal bounds \<open>0 \<le> a \<le> b\<close>; it never raises.\<close>

definition slice :: "nat \<Rightarrow> nat \<Rightarrow> string \<Rightarrow> string" where
  "slice a b s = take (b - a) (drop a s)"

text \<open>
  \<^verbatim>\<open>int(x, 16)\<close> on ASCII text: optional surrounding whitespace, an optional sign, an
  optional \<^verbatim>\<open>0x\<close> prefix, then hexadecimal digits separated by single underscores; anything
  else raises \<^verbatim>\<open>ValueError\<close>. Service data comes out of \<^verbatim>\<open>binascii.b2a_hex\<close>, so a
  string and its UTF-8 encoding have the same characters; a character outside ASCII is
  neither a digit nor whitespace here.
\<close>

definition py_isspace :: "char \<Rightarrow> bool" where
  "py_isspace c =
     (c = CHR 0x09 \<or> c = CHR 0x0A \<or> c = CHR 0x0B \<or> c = CHR 0x0C \<or> c = CHR 0x0D \<or> c = CHR 0x20)"

definition digit_value :: "char \<Rightarrow> nat option" where
  "digit_value c =
     (let n = (of_char c :: nat) in
      if 48 \<le> n \<and> n \<le> 57 then Some (n - 48)
      else if 97 \<le> n \<and> n \<le> 102 then Some (n - 87)
      else if 65 \<le> n \<and> n \<le> 70 then Some (n - 55)
      else None)"

text \<open>
  The digit loop: \<open>prev\<close> is the character read last, the result is the value of the
  digits and the unread rest. A doubled or a trailing underscore is an error.
\<close>

fun scan_digits :: "char \<Rightarrow> string \<Rightarrow> nat \<Rightarrow> (nat \<times> string) option" where
  "scan_digits prev [] acc = (if prev = CHR ''_'' then None else Some (acc, []))"
| "scan_digits prev (c # cs) acc =
     (if c = CHR ''_'' then (if prev = CHR ''_'' then None else scan_digits c cs acc)
      else case digit_value c of
             Some d \<Rightarrow> scan_digits c cs (16 * acc + d)
           | None \<Rightarrow> (if prev = CHR ''_'' then None else Some (acc, c # cs)))"

definition strip_sign :: "string \<Rightarrow> bool \<times> string" where
  "strip_sign s =
     (case s of
        [] \<Rightarrow> (False, s)
      | c # r \<Rightarrow> if c = CHR ''+'' then (False, r) else if c = CHR ''-'' then (True, r) else (False, s))"

definition strip_prefix16 :: "string \<Rightarrow> string" where
  "strip_prefix16 s =
     (case s of
        c # x # r \<Rightarrow>
          if c = CHR ''0'' \<and> (x = CHR ''x'' \<or> x = CHR ''X'')
          then (case r of [] \<Rightarrow> r | u # r' \<Rightarrow> if u = CHR ''_'' then r' else r)
          else s
      | _ \<Rightarrow> s)"

definition py_int16 :: "string \<Rightarrow> error + int" where
  "py_int16 s =
     (let (neg, s2) = strip_sign (dropWhile py_isspace s);
          s3 = strip_prefix16 s2
      in case s3 of
           [] \<Rightarrow> Inl (ValueError_InvalidLiteral s)
         | c # _ \<Rightarrow>
             if digit_value c = None then Inl (ValueError_InvalidLiteral s)
             else (case scan_digits (CHR 0x00) s3 0 of
                     None \<Rightarrow> Inl (ValueError_InvalidLiteral s)
                   | Some (n, rest) \<Rightarrow>
                       if dropWhile py_isspace rest = []
                       then Inr (if neg then - int n else int n)
                       else Inl (ValueError_InvalidLiteral s)))"

section \<open>Classification\<close>

text \<open>
  \<^verbatim>\<open>get_scan_data\<close> builds a dictionary from description to value with a comprehension
  over the triples: a later triple overwrites an earlier one with the same description.
\<close>

definition get_scan_data :: "ScanEntry \<Rightarrow> (string \<rightharpoonup> string)" where
  "get_scan_data device =
     foldl (\<lambda>m (tag, description, v). m(description \<mapsto> v)) Map.empty (scanData device)"

text \<open>
  \<^verbatim>\<open>is_switchbot_thermometer\<close>, lines 56 to 75. The calls to \<^verbatim>\<open>logging\<close> only write
  diagnostics and are left out; \<^verbatim>\<open>dict.get("Manufacturer", "")\<close> yields the empty string
  for a missing key.
\<close>

definition is_switchbot_thermometer :: "ScanEntry \<Rightarrow> bool" where
  "is_switchbot_thermometer device =
     (if scanData device = [] then False
      else
        let scan_data = get_scan_data device in
        if \<not> startswith (case scan_data ''Manufacturer'' of None \<Rightarrow> [] | Some m \<Rightarrow> m)
                 SWITCHBOT_MANUFACTURER_ID
        then False
        else if scan_data ''Complete 128b Services'' \<noteq> Some SWITCHBOT_SERVICE_ID then False
        else True)"

section \<open>Decoding\<close>

text \<open>
  Lines 84 to 101 of \<^verbatim>\<open>parse_device_data\<close>, on the service data string: the frame
  marker check, then the four \<^verbatim>\<open>int(..., 16)\<close> calls in the order of the source, each of
  which may raise.
\<close>

definition parse_service_data :: "string \<Rightarrow> error + Measurement" where
  "parse_service_data service_data =
     (if \<not> startswith service_data ''000d'' then Inl (ValueError_Malformed service_data)
      else
        (case py_int16 (slice 8 10 service_data) of
           Inl e \<Rightarrow> Inl e
         | Inr byte2 \<Rightarrow>
            (let battery = byte2 AND 127 in
             (case py_int16 (slice 11 12 service_data) of
                Inl e \<Rightarrow> Inl e
              | Inr nibble \<Rightarrow>
                 (let temperature_fractional = real_of_int nibble / 10 in
                  (case py_int16 (slice 12 14 service_data) of
                     Inl e \<Rightarrow> Inl e
                   | Inr temperature_integral \<Rightarrow>
                      (let (temperature_integral, temperature_fractional) =
                             (if temperature_integral < 128
                              then (temperature_integral * (- 1), temperature_fractional * (- 1))
                              else (temperature_integral - 128, temperature_fractional));
                           temperature = real_of_int temperature_integral + temperature_fractional
                       in (case py_int16 (slice 14 16 service_data) of
                             Inl e \<Rightarrow> Inl e
                           | Inr byte5 \<Rightarrow>
                               Inr \<lparr>battery = battery, temperature = temperature,
                                    humidity = byte5 mod 128\<rparr>))))))))"

text \<open>
  \<^verbatim>\<open>parse_device_data\<close>: line 83 looks the service data up with \<^verbatim>\<open>dict.get\<close>, which
  yields \<^verbatim>\<open>None\<close> for a missing key, and line 84 then fails on \<^verbatim>\<open>None.startswith\<close>.
\<close>

definition parse_device_data :: "ScanEntry \<Rightarrow> error + Measurement" where
  "parse_device_data device =
     (case get_scan_data device ''16b Service Data'' of
        None \<Rightarrow> Inl AttributeError
      | Some service_data \<Rightarrow> parse_service_data service_data)"

section \<open>Publishing and the scan loop\<close>

text \<open>
  The four module-level gauges, each labelled by device address and name. A Prometheus
  gauge keeps the value set last for a label pair, as a float.
\<close>

record metrics =
  gauge_rssi :: "(string \<times> string) \<rightharpoonup> real"
  gauge_battery :: "(string \<times> string) \<rightharpoonup> real"
  gauge_humidity :: "(string \<times> string) \<rightharpoonup> real"
  gauge_temperature :: "(string \<times> string) \<rightharpoonup> real"

definition no_metrics :: metrics where
  "no_metrics =
     \<lparr>gauge_rssi = Map.empty, gauge_battery = Map.empty,
      gauge_humidity = Map.empty, gauge_temperature = Map.empty\<rparr>"

text \<open>The label pair: \<^verbatim>\<open>device.addr\<close> and \<^verbatim>\<open>DEVICE_NAME_MAP.get(device.addr, device.addr)\<close>.\<close>

definition labels :: "ScanEntry \<Rightarrow> string \<times> string" where
  "labels device =
     (addr device,
      (case map_of DEVICE_NAME_MAP (addr device) of None \<Rightarrow> addr device | Some n \<Rightarrow> n))"

definition publish_measurement :: "ScanEntry \<Rightarrow> Measurement \<Rightarrow> metrics \<Rightarrow> metrics" where
  "publish_measurement device measurement g =
     g\<lparr>gauge_rssi := (gauge_rssi g)(labels device \<mapsto> real_of_int (rssi device)),
       gauge_battery := (gauge_battery g)(labels device \<mapsto> real_of_int (battery measurement)),
       gauge_humidity := (gauge_humidity g)(labels device \<mapsto> real_of_int (humidity measurement)),
       gauge_temperature := (gauge_temperature g)(labels device \<mapsto> temperature measurement)\<rparr>"

text \<open>
  \<^verbatim>\<open>SwitchbotDelegate.handleDiscovery\<close>, lines 48 to 53. It has no \<^verbatim>\<open>try\<close>: an exception
  of \<^verbatim>\<open>parse_device_data\<close> leaves the method before \<^verbatim>\<open>publish_measurement\<close> runs. The
  two flags are not read.
\<close>

definition handleDiscovery ::
    "ScanEntry \<Rightarrow> bool \<Rightarrow> bool \<Rightarrow> metrics \<Rightarrow> (error + unit) \<times> metrics" where
  "handleDiscovery device is_new_device is_new_data g =
     (if is_switchbot_thermometer device then
        (case parse_device_data device of
           Inl e \<Rightarrow> (Inl e, g)
         | Inr measurement \<Rightarrow> (Inr (), publish_measurement device measurement g))
      else (Inr (), g))"

text \<open>
  What happens during one call \<^verbatim>\<open>scanner.scan(60)\<close> is given by the environment as a list
  of events: an advertisement, which bluepy hands to the delegate's \<^verbatim>\<open>handleDiscovery\<close>
  inside the call, or a transport failure, which bluepy raises. bluepy does not catch
  what the delegate raises, so the first exception ends the call; when the events are
  used up the window has elapsed and the call returns.
\<close>

datatype scan_event =
    Advertisement ScanEntry bool bool
  | TransportFailure error

fun scan :: "scan_event list \<Rightarrow> metrics \<Rightarrow> (error + unit) \<times> metrics" where
  "scan [] g = (Inr (), g)"
| "scan (Advertisement device is_new_device is_new_data # evs) g =
     (case handleDiscovery device is_new_device is_new_data g of
        (Inl e, g') \<Rightarrow> (Inl e, g')
      | (Inr u, g') \<Rightarrow> scan evs g')"
| "scan (TransportFailure e # evs) g = (Inl e, g)"

text \<open>
  The loop of \<^verbatim>\<open>main\<close>, lines 143 to 147, run on the scan windows observed so far. Only
  \<^verbatim>\<open>btle.BTLEDisconnectError\<close> is caught; any other exception leaves \<^verbatim>\<open>main\<close> and ends
  the process. While no exception has escaped, the loop is still scanning.
\<close>

datatype outcome = Scanning | Exited error

fun main_loop :: "scan_event list list \<Rightarrow> metrics \<Rightarrow> outcome \<times> metrics" where
  "main_loop [] g = (Scanning, g)"
| "main_loop (window # windows) g =
     (case scan window g of
        (Inr u, g') \<Rightarrow> main_loop windows g'
      | (Inl e, g') \<Rightarrow>
          if e = BTLEDisconnectError then main_loop windows g' else (Exited e, g'))"

section \<open>Module globals and diagnostics\<close>

text \<open>
  Besides the gauges the module shares two more globals: the dictionary
  \<^verbatim>\<open>DEVICE_NAME_MAP\<close> and the root logger of \<^verbatim>\<open>logging\<close>, whose level \<^verbatim>\<open>configure_logging\<close>
  sets (\<^verbatim>\<open>DEBUG\<close> is 10, \<^verbatim>\<open>INFO\<close>, the default, is 20). A call \<^verbatim>\<open>logging.debug\<close> or
  \<^verbatim>\<open>logging.info\<close> emits a record when the logger's level is not above the record's. A
  record is kept as its level, its format string and the four values that line 57 puts
  into the device string: address, name looked up in \<^verbatim>\<open>DEVICE_NAME_MAP\<close> (\<^verbatim>\<open>None\<close> when
  missing), signal strength and connectability. The JSON text that line 64 appends is not
  represented.
\<close>

datatype log_record = LogRecord int string "string \<times> string option \<times> int \<times> bool"

record module_state =
  name_map :: "(string \<times> string) list"
  logger_level :: int
  logger_output :: "log_record list"
  gauges :: metrics

definition logging_log ::
    "int \<Rightarrow> string \<Rightarrow> string \<times> string option \<times> int \<times> bool \<Rightarrow> module_state \<Rightarrow> module_state" where
  "logging_log lvl msg device_str w =
     (if logger_level w \<le> lvl
      then w\<lparr>logger_output := logger_output w @ [LogRecord lvl msg device_str]\<rparr>
      else w)"

text \<open>
  \<^verbatim>\<open>is_switchbot_thermometer\<close> once more, lines 56 to 75, now with the statements that
  touch the globals: the lookup in \<^verbatim>\<open>DEVICE_NAME_MAP\<close> of line 57 and the five logging
  calls. The result is the returned value and the state of the globals afterwards.
\<close>

definition is_switchbot_thermometer_logged :: "ScanEntry \<Rightarrow> module_state \<Rightarrow> bool \<times> module_state" where
  "is_switchbot_thermometer_logged device w =
     (let device_str =
            (addr device, map_of (name_map w) (addr device), rssi device, connectable device)
      in if scanData device = []
         then (False, logging_log 10 ''%s exposes no data'' device_str w)
         else
           let scan_data = get_scan_data device;
               w1 = logging_log 10 ''%s scan data: %s'' device_str w
           in if \<not> startswith (case scan_data ''Manufacturer'' of None \<Rightarrow> [] | Some m \<Rightarrow> m)
                      SWITCHBOT_MANUFACTURER_ID
              then (False, logging_log 10 ''%s manufacturer is not Swichbot'' device_str w1)
              else if scan_data ''Complete 128b Services'' \<noteq> Some SWITCHBOT_SERVICE_ID
              then (False,
                    logging_log 10 ''%s service ID is not Swichbot Thermometer'' device_str w1)
              else (True, logging_log 20 ''%s is Switchbot thermometer'' device_str w1))"

text \<open>The globals after \<^verbatim>\<open>main\<close> has configured logging with the default verbosity.\<close>

definition started :: module_state where
  "started =
     \<lparr>name_map = DEVICE_NAME_MAP, logger_level = 20, logger_output = [], gauges = no_metrics\<rparr>"

section \<open>Sample records\<close>

text \<open>
  Records as bluepy delivers them, used in the examples: a Switchbot meter with the given
  service data, a meter whose advertisement carries no service data at all, a device
  that exposes no scan data, a device of another vendor that advertises the same service,
  and a record with the Switchbot manufacturer prefix whose service identifier is spelled
  in upper case.
\<close>

definition meter_entry :: "string \<Rightarrow> ScanEntry" where
  "meter_entry service_data =
     \<lparr>addr = ''f2:0c:69:f4:56:af'', rssi = - 71, connectable = False,
      scanData = [(1, ''Flags'', ''06''),
                  (255, ''Manufacturer'', ''5900f20c69f456af''),
                  (7, ''Complete 128b Services'', ''cba20d00-224d-11e6-9fb8-0002a5d5c51b''),
                  (22, ''16b Service Data'', service_data)]\<rparr>"

definition no_service_data :: ScanEntry where
  "no_service_data =
     \<lparr>addr = ''ee:ed:06:15:e1:fc'', rssi = - 80, connectable = False,
      scanData = [(255, ''Manufacturer'', ''5900eeed0615e1fc''),
                  (7, ''Complete 128b Services'', ''cba20d00-224d-11e6-9fb8-0002a5d5c51b'')]\<rparr>"

definition silent_entry :: ScanEntry where
  "silent_entry = \<lparr>addr = ''ce:e7:0b:2e:1a:fe'', rssi = - 90, connectable = True, scanData = []\<rparr>"

definition other_vendor_entry :: ScanEntry where
  "other_vendor_entry =
     \<lparr>addr = ''4a:11:9c:03:7e:d2'', rssi = - 65, connectable = True,
      scanData = [(1, ''Flags'', ''1a''),
                  (255, ''Manufacturer'', ''4c001005031c6f2a1b''),
                  (7, ''Complete 128b Services'', ''cba20d00-224d-11e6-9fb8-0002a5d5c51b'')]\<rparr>"

definition other_service_entry :: ScanEntry where
  "other_service_entry =
     \<lparr>addr = ''f2:8d:34:be:e8:e6'', rssi = - 58, connectable = True,
      scanData = [(255, ''Manufacturer'', ''5900f28d34bee8e6''),
                  (7, ''Complete 128b Services'', ''CBA20D00-224D-11E6-9FB8-0002A5D5C51B'')]\<rparr>"

section \<open>Facts about the primitives and the decoder\<close>

lemmas py_int16_eval =
  py_int16_def strip_sign_def strip_prefix16_def py_isspace_def digit_value_def slice_def

lemma and_127_mod: "(b::int) AND 127 = b mod 128"
proof -
  have "b AND mask 7 = b mod 2 ^ 7"
    by (simp only: take_bit_eq_mask [symmetric] take_bit_eq_mod)
  then show ?thesis by (simp add: mask_eq_exp_minus_1)
qed

lemma py_int16_Inl: "py_int16 s = Inl e \<Longrightarrow> e = ValueError_InvalidLiteral s"
  by (auto simp: py_int16_def Let_def split: prod.splits list.splits if_splits option.splits)

lemma parse_device_data_Some:
  "get_scan_data d ''16b Service Data'' = Some s \<Longrightarrow> parse_device_data d = parse_service_data s"
  by (simp add: parse_device_data_def)

text \<open>A successful decode has passed the marker check and all four conversions.\<close>

lemma parse_service_data_Inr:
  assumes "parse_service_data s = Inr m"
  shows "startswith s ''000d'' \<and>
    (\<exists>b n i h. py_int16 (slice 8 10 s) = Inr b \<and> py_int16 (slice 11 12 s) = Inr n \<and>
        py_int16 (slice 12 14 s) = Inr i \<and> py_int16 (slice 14 16 s) = Inr h \<and>
        battery m = b AND 127 \<and>
        temperature m = (if i < 128 then - (real_of_int i + real_of_int n / 10)
                         else real_of_int (i - 128) + real_of_int n / 10) \<and>
        humidity m = h mod 128)"
proof (cases "startswith s ''000d''")
  case False
  with assms show ?thesis by (simp add: parse_service_data_def)
next
  case True
  from assms True obtain b where b: "py_int16 (slice 8 10 s) = Inr b"
    by (cases "py_int16 (slice 8 10 s)") (simp_all add: parse_service_data_def)
  from assms True b obtain n where n: "py_int16 (slice 11 12 s) = Inr n"
    by (cases "py_int16 (slice 11 12 s)") (simp_all add: parse_service_data_def)
  from assms True b n obtain i where i: "py_int16 (slice 12 14 s) = Inr i"
    by (cases "py_int16 (slice 12 14 s)") (simp_all add: parse_service_data_def)
  from assms True b n i obtain h where h: "py_int16 (slice 14 16 s) = Inr h"
    by (cases "py_int16 (slice 14 16 s)") (simp_all add: parse_service_data_def split: if_splits)
  from assms True b n i h
  have m: "m = \<lparr>battery = b AND 127,
                temperature = (if i < 128 then - (real_of_int i + real_of_int n / 10)
                               else real_of_int (i - 128) + real_of_int n / 10),
                humidity = h mod 128\<rparr>"
    by (auto simp: parse_service_data_def Let_def split: if_splits)
  show ?thesis using True b n i h by (simp add: m)
qed

text \<open>
  Hexadecimal digits are read as such: one or two of them are converted without any
  stripping, and a string of 16 characters has all the slices the decoder takes.
\<close>

lemma digit_value_plain:
  assumes "digit_value c = Some d"
  shows "\<not> py_isspace c" "c \<noteq> CHR ''+''" "c \<noteq> CHR ''-''" "c \<noteq> CHR ''_''"
    "c \<noteq> CHR ''x''" "c \<noteq> CHR ''X''"
  using assms by (auto simp: digit_value_def py_isspace_def)

lemma py_int16_one_digit:
  assumes "digit_value c = Some d"
  shows "py_int16 [c] = Inr (int d)"
  using assms digit_value_plain [OF assms]
  by (simp add: py_int16_def strip_sign_def strip_prefix16_def)

lemma py_int16_two_digits:
  assumes "digit_value c1 = Some d1" and "digit_value c2 = Some d2"
  shows "py_int16 [c1, c2] = Inr (int (16 * d1 + d2))"
  using assms digit_value_plain [OF assms(1)] digit_value_plain [OF assms(2)]
  by (simp add: py_int16_def strip_sign_def strip_prefix16_def)

lemma slice_one: "a < length s \<Longrightarrow> slice a (Suc a) s = [s ! a]"
  by (simp add: slice_def take_Suc_conv_app_nth [of 0, simplified] Cons_nth_drop_Suc [symmetric])

lemma slice_two: "Suc a < length s \<Longrightarrow> slice a (Suc (Suc a)) s = [s ! a, s ! Suc a]"
proof -
  assume a: "Suc a < length s"
  then have "drop a s = s ! a # s ! Suc a # drop (Suc (Suc a)) s"
    by (simp add: Cons_nth_drop_Suc Suc_lessD)
  then show ?thesis by (simp add: slice_def)
qed

text \<open>
  The decoder is total on hexadecimal payloads: with the marker in front and hexadecimal
  digits in the seven places it reads, it returns this measurement.
\<close>

lemma parse_service_data_hex:
  assumes "startswith s ''000d''" and "16 \<le> length s"
    and "digit_value (s ! 8) = Some b1" and "digit_value (s ! 9) = Some b2"
    and "digit_value (s ! 11) = Some n"
    and "digit_value (s ! 12) = Some i1" and "digit_value (s ! 13) = Some i2"
    and "digit_value (s ! 14) = Some h1" and "digit_value (s ! 15) = Some h2"
  shows "parse_service_data s =
     Inr \<lparr>battery = int (16 * b1 + b2) AND 127,
          temperature =
            (if 16 * i1 + i2 < 128 then - (real (16 * i1 + i2) + real n / 10)
             else real (16 * i1 + i2) - 128 + real n / 10),
          humidity = int (16 * h1 + h2) mod 128\<rparr>"
proof -
  have s8: "slice 8 10 s = [s ! 8, s ! 9]"
    using assms(2) slice_two [of 8 s] by (simp add: eval_nat_numeral)
  have s11: "slice 11 12 s = [s ! 11]"
    using assms(2) slice_one [of 11 s] by (simp add: eval_nat_numeral)
  have s12: "slice 12 14 s = [s ! 12, s ! 13]"
    using assms(2) slice_two [of 12 s] by (simp add: eval_nat_numeral)
  have s14: "slice 14 16 s = [s ! 14, s ! 15]"
    using assms(2) slice_two [of 14 s] by (simp add: eval_nat_numeral)
  have p8: "py_int16 (slice 8 10 s) = Inr (int (16 * b1 + b2))"
    unfolding s8 by (rule py_int16_two_digits [OF assms(3) assms(4)])
  have p11: "py_int16 (slice 11 12 s) = Inr (int n)"
    unfolding s11 by (rule py_int16_one_digit [OF assms(5)])
  have p12: "py_int16 (slice 12 14 s) = Inr (int (16 * i1 + i2))"
    unfolding s12 by (rule py_int16_two_digits [OF assms(6) assms(7)])
  have p14: "py_int16 (slice 14 16 s) = Inr (int (16 * h1 + h2))"
    unfolding s14 by (rule py_int16_two_digits [OF assms(8) assms(9)])
  show ?thesis
    unfolding parse_service_data_def p8 p11 p12 p14 using assms(1)
    by (simp add: Let_def)
qed

lemma digit_value_samples:
  "digit_value CHR ''0'' = Some 0" "digit_value CHR ''1'' = Some 1" "digit_value CHR ''2'' = Some 2"
  "digit_value CHR ''3'' = Some 3" "digit_value CHR ''4'' = Some 4" "digit_value CHR ''5'' = Some 5"
  "digit_value CHR ''6'' = Some 6" "digit_value CHR ''7'' = Some 7" "digit_value CHR ''8'' = Some 8"
  "digit_value CHR ''f'' = Some 15"
  by (simp_all add: digit_value_def)

text \<open>
  The dictionary of \<^verbatim>\<open>get_scan_data\<close> holds, for each description, the value of the last
  triple with it; when the descriptions are distinct, it holds exactly the triples.
\<close>

lemma foldl_scan_data:
  "foldl (\<lambda>m (tag, description, v). m(description \<mapsto> v)) m0 xs =
     m0 ++ map_of (rev (map snd xs))"
proof (induction xs arbitrary: m0)
  case Nil
  show ?case by simp
next
  case (Cons x xs)
  obtain t k v where x: "x = (t, k, v)" by (cases x)
  have "foldl (\<lambda>m (tag, description, v). m(description \<mapsto> v)) m0 (x # xs) =
        foldl (\<lambda>m (tag, description, v). m(description \<mapsto> v)) (m0(k \<mapsto> v)) xs"
    unfolding x by simp
  also have "\<dots> = m0(k \<mapsto> v) ++ map_of (rev (map snd xs))"
    by (rule Cons.IH)
  also have "\<dots> = (m0 ++ [k \<mapsto> v]) ++ map_of (rev (map snd xs))"
    by simp
  also have "\<dots> = m0 ++ ([k \<mapsto> v] ++ map_of (rev (map snd xs)))"
    by (simp only: map_add_assoc)
  also have "[k \<mapsto> v] ++ map_of (rev (map snd xs)) = map_of (rev (map snd (x # xs)))"
    unfolding x by (simp add: map_of_append)
  finally show ?case .
qed

lemma startswith_5900: "startswith m ''5900'' = (take 4 m = ''5900'')"
proof -
  have "length ''5900'' = 4" by simp
  then show ?thesis by (simp only: startswith_def)
qed

lemma get_scan_data_map_of:
  "get_scan_data d = map_of (rev (map snd (scanData d)))"
  by (simp add: get_scan_data_def foldl_scan_data)

lemma map_of_rev_distinct:
  assumes "distinct (map fst ps)"
  shows "(map_of (rev ps) k = Some v) = ((k, v) \<in> set ps)"
proof -
  from assms have "distinct (map fst (rev ps))" by (simp add: rev_map [symmetric])
  then have "(map_of (rev ps) k = Some v) = ((k, v) \<in> set (rev ps))"
    by (metis map_of_SomeD map_of_is_SomeI)
  then show ?thesis by simp
qed

lemma get_scan_data_distinct:
  assumes "distinct (map (fst \<circ> snd) (scanData d))"
  shows "(get_scan_data d k = Some v) = (\<exists>t. (t, k, v) \<in> set (scanData d))"
proof -
  from assms have "distinct (map fst (map snd (scanData d)))" by simp
  from map_of_rev_distinct [OF this]
  have "(get_scan_data d k = Some v) = ((k, v) \<in> set (map snd (scanData d)))"
    by (simp add: get_scan_data_map_of)
  also have "\<dots> = (\<exists>t. (t, k, v) \<in> set (scanData d))" by force
  finally show ?thesis .
qed

text \<open>Logging changes the logger's output only, and only by appending.\<close>

lemma logging_log_frame:
  "name_map (logging_log lvl msg ds w) = name_map w"
  "logger_level (logging_log lvl msg ds w) = logger_level w"
  "gauges (logging_log lvl msg ds w) = gauges w"
  "\<exists>records. logger_output (logging_log lvl msg ds w) = logger_output w @ records"
  by (simp_all add: logging_log_def)

lemma is_switchbot_thermometer_logged_result:
  "fst (is_switchbot_thermometer_logged d w) = is_switchbot_thermometer d"
  by (simp add: is_switchbot_thermometer_logged_def is_switchbot_thermometer_def Let_def)

lemma is_switchbot_thermometer_logged_frame:
  "name_map (snd (is_switchbot_thermometer_logged d w)) = name_map w"
  "logger_level (snd (is_switchbot_thermometer_logged d w)) = logger_level w"
  "gauges (snd (is_switchbot_thermometer_logged d w)) = gauges w"
  by (simp_all add: is_switchbot_thermometer_logged_def Let_def logging_log_frame)

lemma is_switchbot_thermometer_logged_output:
  "\<exists>records. logger_output (snd (is_switchbot_thermometer_logged d w)) = logger_output w @ records"
proof -
  have two: "\<exists>records. logger_output (logging_log l2 m2 ds (logging_log l1 m1 ds w)) =
                logger_output w @ records" for l1 l2 m1 m2 ds
    by (simp add: logging_log_def)
  show ?thesis
    by (simp add: is_switchbot_thermometer_logged_def Let_def logging_log_frame two)
qed

text \<open>Evaluating the classifier and the decoder on the sample records.\<close>

lemma get_scan_data_meter_entry:
  "get_scan_data (meter_entry sd) ''16b Service Data'' = Some sd"
  "get_scan_data (meter_entry sd) ''Manufacturer'' = Some ''5900f20c69f456af''"
  "get_scan_data (meter_entry sd) ''Complete 128b Services'' = Some ''cba20d00-224d-11e6-9fb8-0002a5d5c51b''"
  by (simp_all add: get_scan_data_def meter_entry_def)

lemma meter_entry_scanData: "scanData (meter_entry sd) \<noteq> []"
  by (simp add: meter_entry_def)

lemma is_switchbot_thermometer_meter_entry: "is_switchbot_thermometer (meter_entry sd)"
  unfolding is_switchbot_thermometer_def Let_def
  by (simp only: get_scan_data_meter_entry meter_entry_scanData option.case
        SWITCHBOT_MANUFACTURER_ID_def SWITCHBOT_SERVICE_ID_def startswith_def)
     simp

lemma labels_meter_entry:
  "labels (meter_entry sd) = (''f2:0c:69:f4:56:af'', ''Haust'' @ [CHR 0xC3, CHR 0xBC] @ ''r'')"
  by (simp add: labels_def meter_entry_def DEVICE_NAME_MAP_def)

lemma parse_sample_1:
  "parse_service_data ''000d0000640381b2'' = Inr \<lparr>battery = 100, temperature = 13 / 10, humidity = 50\<rparr>"
  by (simp add: parse_service_data_def startswith_def py_int16_eval)

lemma parse_sample_2:
  "parse_service_data ''000d0000ff0750ff'' = Inr \<lparr>battery = 127, temperature = - (807 / 10), humidity = 127\<rparr>"
  by (simp add: parse_service_data_def startswith_def py_int16_eval)

lemma example_payload_1:
  "startswith ''000d0000640381b2'' ''000d''" "16 \<le> length ''000d0000640381b2''"
  "digit_value (''000d0000640381b2'' ! 8) = Some 6" "digit_value (''000d0000640381b2'' ! 9) = Some 4"
  "digit_value (''000d0000640381b2'' ! 11) = Some 3"
  "digit_value (''000d0000640381b2'' ! 12) = Some 8" "digit_value (''000d0000640381b2'' ! 13) = Some 1"
  "digit_value (''000d0000640381b2'' ! 14) = Some 11" "digit_value (''000d0000640381b2'' ! 15) = Some 2"
  by (simp_all add: startswith_def digit_value_def)

lemma example_payload_2:
  "startswith ''000d0000ff0750ff'' ''000d''" "16 \<le> length ''000d0000ff0750ff''"
  "digit_value (''000d0000ff0750ff'' ! 8) = Some 15" "digit_value (''000d0000ff0750ff'' ! 9) = Some 15"
  "digit_value (''000d0000ff0750ff'' ! 11) = Some 7"
  "digit_value (''000d0000ff0750ff'' ! 12) = Some 5" "digit_value (''000d0000ff0750ff'' ! 13) = Some 0"
  "digit_value (''000d0000ff0750ff'' ! 14) = Some 15" "digit_value (''000d0000ff0750ff'' ! 15) = Some 15"
  by (simp_all add: startswith_def digit_value_def)

lemma example_payload_3:
  "startswith ''000d000064038132'' ''000d''" "16 \<le> length ''000d000064038132''"
  "digit_value (''000d000064038132'' ! 8) = Some 6" "digit_value (''000d000064038132'' ! 9) = Some 4"
  "digit_value (''000d000064038132'' ! 11) = Some 3"
  "digit_value (''000d000064038132'' ! 12) = Some 8" "digit_value (''000d000064038132'' ! 13) = Some 1"
  "digit_value (''000d000064038132'' ! 14) = Some 3" "digit_value (''000d000064038132'' ! 15) = Some 2"
  by (simp_all add: startswith_def digit_value_def)

text \<open>A well-formed advertisement of the meter sets all four gauges under its label pair.\<close>

lemma handleDiscovery_sample:
  "handleDiscovery (meter_entry ''000d0000640381b2'') True True no_metrics =
     (Inr (),
      \<lparr>gauge_rssi = [labels (meter_entry ''000d0000640381b2'') \<mapsto> - 71],
       gauge_battery = [labels (meter_entry ''000d0000640381b2'') \<mapsto> 100],
       gauge_humidity = [labels (meter_entry ''000d0000640381b2'') \<mapsto> 50],
       gauge_temperature = [labels (meter_entry ''000d0000640381b2'') \<mapsto> 13 / 10]\<rparr>)"
proof -
  have "parse_device_data (meter_entry ''000d0000640381b2'') =
     Inr \<lparr>battery = 100, temperature = 13 / 10, humidity = 50\<rparr>"
    by (simp only: parse_device_data_Some [OF get_scan_data_meter_entry(1)] parse_sample_1)
  then show ?thesis
    by (simp add: handleDiscovery_def is_switchbot_thermometer_meter_entry
          publish_measurement_def no_metrics_def)
       (simp add: meter_entry_def)
qed

section \<open>The decoder\<close>

text \<open>
  Claim C1. Every service data string that starts with \<^verbatim>\<open>000d\<close>, has at least 16
  characters and has hexadecimal digits where the decoder reads is accepted, and its
  temperature follows the inverted sign-magnitude rule: with \<open>I\<close> the byte written in
  characters 12 and 13 and \<open>N\<close> the nibble in character 11, it is \<open>- (I + N / 10)\<close>
  when \<open>I < 128\<close> and \<open>(I - 128) + N / 10\<close> otherwise. So the byte \<^verbatim>\<open>81\<close> with the nibble
  \<^verbatim>\<open>3\<close> gives 1.3, and the byte \<^verbatim>\<open>50\<close> gives a negative reading of magnitude 80 plus the
  fraction. The temperature is the exact value; Python rounds it to a float.
\<close>

theorem temperature_sign_rule:
  assumes "get_scan_data d ''16b Service Data'' = Some s"
    and "startswith s ''000d''" and "16 \<le> length s"
    and "digit_value (s ! 8) = Some b1" and "digit_value (s ! 9) = Some b2"
    and "digit_value (s ! 11) = Some n"
    and "digit_value (s ! 12) = Some i1" and "digit_value (s ! 13) = Some i2"
    and "digit_value (s ! 14) = Some h1" and "digit_value (s ! 15) = Some h2"
  shows "\<exists>m. parse_device_data d = Inr m \<and>
           temperature m =
             (if 16 * i1 + i2 < 128 then - (real (16 * i1 + i2) + real n / 10)
              else real (16 * i1 + i2) - 128 + real n / 10) \<and>
           (s ! 12 = CHR ''8'' \<and> s ! 13 = CHR ''1'' \<and> s ! 11 = CHR ''3'' \<longrightarrow>
              temperature m = 13 / 10) \<and>
           (s ! 12 = CHR ''5'' \<and> s ! 13 = CHR ''0'' \<longrightarrow>
              temperature m = - (80 + real n / 10))"
proof -
  let ?t = "if 16 * i1 + i2 < 128 then - (real (16 * i1 + i2) + real n / 10)
            else real (16 * i1 + i2) - 128 + real n / 10"
  let ?m = "\<lparr>battery = int (16 * b1 + b2) AND 127, temperature = ?t,
             humidity = int (16 * h1 + h2) mod 128\<rparr>"
  have p: "parse_device_data d = Inr ?m"
    unfolding parse_device_data_Some [OF assms(1)]
    by (rule parse_service_data_hex [OF assms(2-10)])
  have e1: "s ! 12 = CHR ''8'' \<and> s ! 13 = CHR ''1'' \<and> s ! 11 = CHR ''3'' \<longrightarrow> ?t = 13 / 10"
    using assms(6-8) by (auto simp: digit_value_samples)
  have e2: "s ! 12 = CHR ''5'' \<and> s ! 13 = CHR ''0'' \<longrightarrow> ?t = - (80 + real n / 10)"
    using assms(7,8) by (auto simp: digit_value_samples)
  from p e1 e2 show ?thesis by simp
qed

theorem temperature_sign_rule_witness:
  "(\<exists>m. parse_device_data (meter_entry ''000d0000640381b2'') = Inr m \<and> temperature m = 13 / 10) \<and>
   (\<exists>m. parse_device_data (meter_entry ''000d0000ff0750ff'') = Inr m \<and> temperature m = - (807 / 10))"
proof -
  have c1: "''000d0000640381b2'' ! 12 = CHR ''8'' \<and> ''000d0000640381b2'' ! 13 = CHR ''1'' \<and>
            ''000d0000640381b2'' ! 11 = CHR ''3''"
    by simp
  have c2: "''000d0000ff0750ff'' ! 12 = CHR ''5'' \<and> ''000d0000ff0750ff'' ! 13 = CHR ''0''"
    by simp
  from temperature_sign_rule [OF get_scan_data_meter_entry(1) example_payload_1] c1
  have w1: "\<exists>m. parse_device_data (meter_entry ''000d0000640381b2'') = Inr m \<and> temperature m = 13 / 10"
    by blast
  from temperature_sign_rule [OF get_scan_data_meter_entry(1) example_payload_2] c2
  have w2: "\<exists>m. parse_device_data (meter_entry ''000d0000ff0750ff'') = Inr m \<and>
                temperature m = - (80 + real 7 / 10)"
    by blast
  have "- (80 + real 7 / 10) = - (807 / 10)" by simp
  with w1 w2 show ?thesis by simp
qed

text \<open>
  Claim C3. Service data that does not start with \<^verbatim>\<open>000d\<close> makes the decoder raise the
  \<^verbatim>\<open>ValueError\<close> of line 85, which carries the string; no measurement is returned.
\<close>

theorem missing_marker_is_malformed:
  assumes "get_scan_data d ''16b Service Data'' = Some s"
    and "\<not> startswith s ''000d''"
  shows "parse_device_data d = Inl (ValueError_Malformed s)"
  using assms by (simp add: parse_device_data_def parse_service_data_def)

theorem missing_marker_is_malformed_witness:
  "get_scan_data (meter_entry ''540010640381b2'') ''16b Service Data'' = Some ''540010640381b2'' \<and>
   \<not> startswith ''540010640381b2'' ''000d'' \<and>
   parse_device_data (meter_entry ''540010640381b2'') = Inl (ValueError_Malformed ''540010640381b2'')"
proof -
  have h1: "get_scan_data (meter_entry ''540010640381b2'') ''16b Service Data'' = Some ''540010640381b2''"
    by (rule get_scan_data_meter_entry)
  have h2: "\<not> startswith ''540010640381b2'' ''000d''"
    by (simp add: startswith_def)
  from h1 h2 missing_marker_is_malformed [OF h1 h2] show ?thesis
    by (intro conjI)
qed

text \<open>
  The battery and humidity bytes are only masked to seven bits, so a payload with
  \<^verbatim>\<open>ff\<close> in both places decodes to 127 for both, above 100.
\<close>

theorem percentage_range_counterexample:
  "parse_device_data (meter_entry ''000d0000ff0750ff'') =
     Inr \<lparr>battery = 127, temperature = - (807 / 10), humidity = 127\<rparr> \<and>
   \<not> (battery \<lparr>battery = 127, temperature = - (807 / 10), humidity = 127\<rparr> \<le> 100) \<and>
   \<not> (humidity \<lparr>battery = 127, temperature = - (807 / 10), humidity = 127\<rparr> \<le> 100)"
proof -
  have "get_scan_data (meter_entry ''000d0000ff0750ff'') ''16b Service Data'' = Some ''000d0000ff0750ff''"
    by (rule get_scan_data_meter_entry)
  then have "parse_device_data (meter_entry ''000d0000ff0750ff'') =
     Inr \<lparr>battery = 127, temperature = - (807 / 10), humidity = 127\<rparr>"
    by (simp only: parse_device_data_Some parse_sample_2)
  then show ?thesis by simp
qed

text \<open>
  Claim C5, amended. In every measurement the decoder returns, the battery and the
  humidity are integers between 0 and 127; the decoder does not clamp them to 100.
\<close>

theorem battery_humidity_seven_bits:
  assumes "parse_device_data d = Inr m"
  shows "0 \<le> battery m \<and> battery m \<le> 127 \<and> 0 \<le> humidity m \<and> humidity m \<le> 127"
proof -
  from assms obtain s where s: "get_scan_data d ''16b Service Data'' = Some s"
    by (cases "get_scan_data d ''16b Service Data''") (simp_all add: parse_device_data_def)
  with assms have "parse_service_data s = Inr m"
    by (simp add: parse_device_data_Some)
  from parse_service_data_Inr [OF this] obtain b h where
    bm: "battery m = b AND 127" and hm: "humidity m = h mod 128"
    by blast
  have bb: "0 \<le> b mod 128 \<and> b mod 128 \<le> 127"
    using pos_mod_bound [of 128 b] pos_mod_sign [of 128 b] by linarith
  have hb: "0 \<le> h mod 128 \<and> h mod 128 \<le> 127"
    using pos_mod_bound [of 128 h] pos_mod_sign [of 128 h] by linarith
  from bm hm bb hb show ?thesis by (simp add: and_127_mod)
qed

theorem battery_humidity_seven_bits_witness:
  "parse_device_data (meter_entry ''000d0000640381b2'') =
     Inr \<lparr>battery = 100, temperature = 13 / 10, humidity = 50\<rparr> \<and>
   (0 \<le> battery \<lparr>battery = 100, temperature = 13 / 10, humidity = 50\<rparr> \<and>
    battery \<lparr>battery = 100, temperature = 13 / 10, humidity = 50\<rparr> \<le> 127 \<and>
    0 \<le> humidity \<lparr>battery = 100, temperature = 13 / 10, humidity = 50\<rparr> \<and>
    humidity \<lparr>battery = 100, temperature = 13 / 10, humidity = 50\<rparr> \<le> 127)"
proof -
  have "get_scan_data (meter_entry ''000d0000640381b2'') ''16b Service Data'' = Some ''000d0000640381b2''"
    by (rule get_scan_data_meter_entry)
  then have h: "parse_device_data (meter_entry ''000d0000640381b2'') =
     Inr \<lparr>battery = 100, temperature = 13 / 10, humidity = 50\<rparr>"
    by (simp only: parse_device_data_Some parse_sample_1)
  from h battery_humidity_seven_bits [OF h] show ?thesis
    by (rule conjI)
qed

text \<open>
  Claim C6. For every such payload the battery is the low seven bits of the byte written
  in characters 8 and 9, and the humidity is the byte written in characters 14 and 15
  modulo 128: \<^verbatim>\<open>ff\<close> gives 127 and \<^verbatim>\<open>64\<close> gives 100 for the battery, \<^verbatim>\<open>ff\<close> gives 127 and
  \<^verbatim>\<open>32\<close> gives 50 for the humidity.
\<close>

theorem battery_humidity_extraction:
  assumes "get_scan_data d ''16b Service Data'' = Some s"
    and "startswith s ''000d''" and "16 \<le> length s"
    and "digit_value (s ! 8) = Some b1" and "digit_value (s ! 9) = Some b2"
    and "digit_value (s ! 11) = Some n"
    and "digit_value (s ! 12) = Some i1" and "digit_value (s ! 13) = Some i2"
    and "digit_value (s ! 14) = Some h1" and "digit_value (s ! 15) = Some h2"
  shows "\<exists>m. parse_device_data d = Inr m \<and>
           battery m = int (16 * b1 + b2) AND 127 \<and>
           battery m = int (16 * b1 + b2) mod 128 \<and>
           humidity m = int (16 * h1 + h2) mod 128 \<and>
           (s ! 8 = CHR ''f'' \<and> s ! 9 = CHR ''f'' \<longrightarrow> battery m = 127) \<and>
           (s ! 8 = CHR ''6'' \<and> s ! 9 = CHR ''4'' \<longrightarrow> battery m = 100) \<and>
           (s ! 14 = CHR ''f'' \<and> s ! 15 = CHR ''f'' \<longrightarrow> humidity m = 127) \<and>
           (s ! 14 = CHR ''3'' \<and> s ! 15 = CHR ''2'' \<longrightarrow> humidity m = 50)"
proof -
  let ?b = "int (16 * b1 + b2) AND 127"
  let ?h = "int (16 * h1 + h2) mod 128"
  let ?m = "\<lparr>battery = ?b,
             temperature =
               (if 16 * i1 + i2 < 128 then - (real (16 * i1 + i2) + real n / 10)
                else real (16 * i1 + i2) - 128 + real n / 10),
             humidity = ?h\<rparr>"
  have p: "parse_device_data d = Inr ?m"
    unfolding parse_device_data_Some [OF assms(1)]
    by (rule parse_service_data_hex [OF assms(2-10)])
  have b: "?b = int (16 * b1 + b2) mod 128" by (rule and_127_mod)
  have e1: "s ! 8 = CHR ''f'' \<and> s ! 9 = CHR ''f'' \<longrightarrow> ?b = 127"
    unfolding b using assms(4,5) by (auto simp: digit_value_samples)
  have e2: "s ! 8 = CHR ''6'' \<and> s ! 9 = CHR ''4'' \<longrightarrow> ?b = 100"
    unfolding b using assms(4,5) by (auto simp: digit_value_samples)
  have e3: "s ! 14 = CHR ''f'' \<and> s ! 15 = CHR ''f'' \<longrightarrow> ?h = 127"
    using assms(9,10) by (auto simp: digit_value_samples)
  have e4: "s ! 14 = CHR ''3'' \<and> s ! 15 = CHR ''2'' \<longrightarrow> ?h = 50"
    using assms(9,10) by (auto simp: digit_value_samples)
  from p b e1 e2 e3 e4 show ?thesis by simp
qed

theorem battery_humidity_extraction_witness:
  "(\<exists>m. parse_device_data (meter_entry ''000d0000ff0750ff'') = Inr m \<and>
        battery m = 127 \<and> humidity m = 127) \<and>
   (\<exists>m. parse_device_data (meter_entry ''000d000064038132'') = Inr m \<and>
        battery m = 100 \<and> humidity m = 50)"
proof -
  have c1: "''000d0000ff0750ff'' ! 8 = CHR ''f'' \<and> ''000d0000ff0750ff'' ! 9 = CHR ''f''"
    and c2: "''000d0000ff0750ff'' ! 14 = CHR ''f'' \<and> ''000d0000ff0750ff'' ! 15 = CHR ''f''"
    and c3: "''000d000064038132'' ! 8 = CHR ''6'' \<and> ''000d000064038132'' ! 9 = CHR ''4''"
    and c4: "''000d000064038132'' ! 14 = CHR ''3'' \<and> ''000d000064038132'' ! 15 = CHR ''2''"
    by simp_all
  from battery_humidity_extraction [OF get_scan_data_meter_entry(1) example_payload_2] c1 c2
  have w1: "\<exists>m. parse_device_data (meter_entry ''000d0000ff0750ff'') = Inr m \<and>
        battery m = 127 \<and> humidity m = 127"
    by blast
  from battery_humidity_extraction [OF get_scan_data_meter_entry(1) example_payload_3] c3 c4
  have w2: "\<exists>m. parse_device_data (meter_entry ''000d000064038132'') = Inr m \<and>
        battery m = 100 \<and> humidity m = 50"
    by blast
  from w1 w2 show ?thesis by (rule conjI)
qed

text \<open>
  A record whose service data is present but empty: the empty string does not start with
  the marker, so the decoder raises the \<^verbatim>\<open>ValueError\<close> of line 85 and not an error of
  string handling.
\<close>

theorem empty_service_data_counterexample:
  "get_scan_data (meter_entry []) ''16b Service Data'' = Some [] \<and>
   parse_device_data (meter_entry []) = Inl (ValueError_Malformed [])"
proof -
  have h: "get_scan_data (meter_entry []) ''16b Service Data'' = Some []"
    by (rule get_scan_data_meter_entry)
  then show ?thesis
    by (simp add: parse_device_data_def parse_service_data_def startswith_def)
qed

text \<open>
  Claim C7, amended. The decoder checks the marker only and never whether the service
  data is there: for a record without the field it raises \<^verbatim>\<open>AttributeError\<close>, an error
  of attribute lookup on \<^verbatim>\<open>None\<close>; for a record whose field is the empty string it
  raises the malformed-data \<^verbatim>\<open>ValueError\<close>.
\<close>

theorem absent_or_empty_service_data:
  "(get_scan_data d ''16b Service Data'' = None \<longrightarrow> parse_device_data d = Inl AttributeError) \<and>
   (get_scan_data d ''16b Service Data'' = Some [] \<longrightarrow>
      parse_device_data d = Inl (ValueError_Malformed []))"
  by (simp add: parse_device_data_def parse_service_data_def startswith_def)

theorem absent_or_empty_service_data_witness:
  "get_scan_data no_service_data ''16b Service Data'' = None \<and>
   parse_device_data no_service_data = Inl AttributeError \<and>
   get_scan_data (meter_entry []) ''16b Service Data'' = Some [] \<and>
   parse_device_data (meter_entry []) = Inl (ValueError_Malformed [])"
proof -
  have h1: "get_scan_data no_service_data ''16b Service Data'' = None"
    by (simp add: get_scan_data_def no_service_data_def)
  have h2: "get_scan_data (meter_entry []) ''16b Service Data'' = Some []"
    by (rule get_scan_data_meter_entry)
  have c1: "parse_device_data no_service_data = Inl AttributeError"
    by (rule absent_or_empty_service_data [THEN conjunct1, THEN mp, OF h1])
  have c2: "parse_device_data (meter_entry []) = Inl (ValueError_Malformed [])"
    by (rule absent_or_empty_service_data [THEN conjunct2, THEN mp, OF h2])
  from h1 c1 h2 c2 show ?thesis by (intro conjI)
qed

section \<open>The classifier\<close>

text \<open>
  Claim C2. The classifier answers true exactly when the record exposes scan data, its
  \<^verbatim>\<open>Manufacturer\<close> value is present and starts with \<^verbatim>\<open>5900\<close>, and its
  \<^verbatim>\<open>Complete 128b Services\<close> value is the Switchbot service identifier, where the value
  of a description is that of the last triple of the record with it. For a record with
  distinct descriptions, as bluepy builds them, that is: some triple is a \<^verbatim>\<open>Manufacturer\<close>
  triple whose value starts with \<^verbatim>\<open>5900\<close>, and some triple is the
  \<^verbatim>\<open>Complete 128b Services\<close> triple with the identifier. In particular the classifier
  answers false for a record without scan data.
\<close>

theorem classify_iff:
  "(is_switchbot_thermometer d =
      (scanData d \<noteq> [] \<and>
       (\<exists>m. map_of (rev (map snd (scanData d))) ''Manufacturer'' = Some m \<and>
            take 4 m = ''5900'') \<and>
       map_of (rev (map snd (scanData d))) ''Complete 128b Services'' =
         Some ''cba20d00-224d-11e6-9fb8-0002a5d5c51b'')) \<and>
   (distinct (map (fst \<circ> snd) (scanData d)) \<longrightarrow>
      is_switchbot_thermometer d =
        ((\<exists>t m. (t, ''Manufacturer'', m) \<in> set (scanData d) \<and> take 4 m = ''5900'') \<and>
         (\<exists>t. (t, ''Complete 128b Services'', ''cba20d00-224d-11e6-9fb8-0002a5d5c51b'')
                 \<in> set (scanData d)))) \<and>
   (scanData d = [] \<longrightarrow> \<not> is_switchbot_thermometer d)"
proof -
  let ?M = "\<lambda>lookup. \<exists>m. lookup ''Manufacturer'' = Some m \<and> take 4 m = ''5900''"
  have e: "take 4 ([]::string) \<noteq> ''5900''" by simp
  have base: "is_switchbot_thermometer d =
      (scanData d \<noteq> [] \<and> ?M (get_scan_data d) \<and>
       get_scan_data d ''Complete 128b Services'' = Some ''cba20d00-224d-11e6-9fb8-0002a5d5c51b'')"
    unfolding is_switchbot_thermometer_def Let_def SWITCHBOT_MANUFACTURER_ID_def
      SWITCHBOT_SERVICE_ID_def startswith_5900
    using e by (cases "get_scan_data d ''Manufacturer''") auto
  have a: "is_switchbot_thermometer d =
      (scanData d \<noteq> [] \<and>
       (\<exists>m. map_of (rev (map snd (scanData d))) ''Manufacturer'' = Some m \<and>
            take 4 m = ''5900'') \<and>
       map_of (rev (map snd (scanData d))) ''Complete 128b Services'' =
         Some ''cba20d00-224d-11e6-9fb8-0002a5d5c51b'')"
    using base by (simp only: get_scan_data_map_of)
  have b: "distinct (map (fst \<circ> snd) (scanData d)) \<longrightarrow>
      is_switchbot_thermometer d =
        ((\<exists>t m. (t, ''Manufacturer'', m) \<in> set (scanData d) \<and> take 4 m = ''5900'') \<and>
         (\<exists>t. (t, ''Complete 128b Services'', ''cba20d00-224d-11e6-9fb8-0002a5d5c51b'')
                 \<in> set (scanData d)))"
  proof
    assume dist: "distinct (map (fst \<circ> snd) (scanData d))"
    show "is_switchbot_thermometer d =
        ((\<exists>t m. (t, ''Manufacturer'', m) \<in> set (scanData d) \<and> take 4 m = ''5900'') \<and>
         (\<exists>t. (t, ''Complete 128b Services'', ''cba20d00-224d-11e6-9fb8-0002a5d5c51b'')
                 \<in> set (scanData d)))"
      unfolding base get_scan_data_distinct [OF dist] by auto
  qed
  have c: "scanData d = [] \<longrightarrow> \<not> is_switchbot_thermometer d"
    by (simp add: is_switchbot_thermometer_def)
  from a b c show ?thesis by blast
qed

theorem classify_iff_witness:
  "is_switchbot_thermometer (meter_entry ''000d0000640381b2'') \<and>
   \<not> is_switchbot_thermometer other_vendor_entry \<and>
   \<not> is_switchbot_thermometer other_service_entry \<and>
   \<not> is_switchbot_thermometer silent_entry"
proof -
  have d1: "distinct (map (fst \<circ> snd) (scanData (meter_entry ''000d0000640381b2'')))"
    by (simp add: meter_entry_def)
  have r1: "(\<exists>t m. (t, ''Manufacturer'', m) \<in> set (scanData (meter_entry ''000d0000640381b2''))
                \<and> take 4 m = ''5900'') \<and>
            (\<exists>t. (t, ''Complete 128b Services'', ''cba20d00-224d-11e6-9fb8-0002a5d5c51b'')
                 \<in> set (scanData (meter_entry ''000d0000640381b2'')))"
  proof
    have "(255, ''Manufacturer'', ''5900f20c69f456af'')
            \<in> set (scanData (meter_entry ''000d0000640381b2'')) \<and>
          take 4 ''5900f20c69f456af'' = ''5900''"
      by (simp add: meter_entry_def)
    then show "\<exists>t m. (t, ''Manufacturer'', m) \<in> set (scanData (meter_entry ''000d0000640381b2''))
                \<and> take 4 m = ''5900''"
      by blast
    have "(7, ''Complete 128b Services'', ''cba20d00-224d-11e6-9fb8-0002a5d5c51b'')
            \<in> set (scanData (meter_entry ''000d0000640381b2''))"
      by (simp add: meter_entry_def)
    then show "\<exists>t. (t, ''Complete 128b Services'', ''cba20d00-224d-11e6-9fb8-0002a5d5c51b'')
                 \<in> set (scanData (meter_entry ''000d0000640381b2''))"
      by blast
  qed
  have w1: "is_switchbot_thermometer (meter_entry ''000d0000640381b2'')"
    using classify_iff [of "meter_entry ''000d0000640381b2''", THEN conjunct2, THEN conjunct1,
        THEN mp, OF d1] r1
    by (rule iffD2)
  have d2: "distinct (map (fst \<circ> snd) (scanData other_vendor_entry))"
    by (simp add: other_vendor_entry_def)
  have r2: "\<not> (\<exists>t m. (t, ''Manufacturer'', m) \<in> set (scanData other_vendor_entry)
                \<and> take 4 m = ''5900'')"
    by (auto simp: other_vendor_entry_def)
  have w2: "\<not> is_switchbot_thermometer other_vendor_entry"
    using classify_iff [of other_vendor_entry, THEN conjunct2, THEN conjunct1, THEN mp, OF d2] r2
    by blast
  have d3: "distinct (map (fst \<circ> snd) (scanData other_service_entry))"
    by (simp add: other_service_entry_def)
  have r3: "\<not> (\<exists>t. (t, ''Complete 128b Services'', ''cba20d00-224d-11e6-9fb8-0002a5d5c51b'')
                 \<in> set (scanData other_service_entry))"
    by (auto simp: other_service_entry_def)
  have w3: "\<not> is_switchbot_thermometer other_service_entry"
    using classify_iff [of other_service_entry, THEN conjunct2, THEN conjunct1, THEN mp, OF d3] r3
    by blast
  have h4: "scanData silent_entry = []" by (simp add: silent_entry_def)
  have w4: "\<not> is_switchbot_thermometer silent_entry"
    by (rule classify_iff [THEN conjunct2, THEN conjunct2, THEN mp, OF h4])
  from w1 w2 w3 w4 show ?thesis by blast
qed

section \<open>The pipeline\<close>

text \<open>
  Claim C9. An advertisement the classifier rejects is dropped: \<^verbatim>\<open>handleDiscovery\<close>
  returns without raising and without calling the decoder, the gauges are as before, and
  the scan goes on with the next event.
\<close>

theorem unclassified_is_dropped:
  assumes "\<not> is_switchbot_thermometer d"
  shows "handleDiscovery d is_new_device is_new_data g = (Inr (), g) \<and>
         scan (Advertisement d is_new_device is_new_data # evs) g = scan evs g"
  using assms by (simp add: handleDiscovery_def)

text \<open>
  The device without scan data has no service data either, so decoding it would raise;
  \<^verbatim>\<open>handleDiscovery\<close> does not.
\<close>

theorem unclassified_is_dropped_witness:
  "\<not> is_switchbot_thermometer silent_entry \<and>
   parse_device_data silent_entry = Inl AttributeError \<and>
   handleDiscovery silent_entry True False no_metrics = (Inr (), no_metrics) \<and>
   scan (Advertisement silent_entry True False # []) no_metrics = scan [] no_metrics"
proof -
  have h: "\<not> is_switchbot_thermometer silent_entry"
    by (simp add: is_switchbot_thermometer_def silent_entry_def)
  have p: "parse_device_data silent_entry = Inl AttributeError"
    by (simp add: parse_device_data_def get_scan_data_def silent_entry_def)
  from h p unclassified_is_dropped [OF h, of True False no_metrics "[]"] show ?thesis
    by blast
qed




lemma parse_device_data_short:
  "parse_device_data (meter_entry ''0d0054001064'') = Inl (ValueError_Malformed ''0d0054001064'')"
proof -
  have "get_scan_data (meter_entry ''0d0054001064'') ''16b Service Data'' = Some ''0d0054001064''"
    by (rule get_scan_data_meter_entry)
  then show ?thesis
    by (simp add: parse_device_data_def parse_service_data_def startswith_def)
qed

text \<open>
  A window with two advertisements of a meter, the first with service data that lacks the
  marker, the second well formed: the loop exits with the \<^verbatim>\<open>ValueError\<close> of the first
  and the second is never published.
\<close>

theorem malformed_payload_counterexample:
  "is_switchbot_thermometer (meter_entry ''0d0054001064'') \<and>
   parse_device_data (meter_entry ''0d0054001064'') = Inl (ValueError_Malformed ''0d0054001064'') \<and>
   main_loop [[Advertisement (meter_entry ''0d0054001064'') True True,
               Advertisement (meter_entry ''000d0000640381b2'') False True], []] no_metrics =
     (Exited (ValueError_Malformed ''0d0054001064''), no_metrics)"
  by (simp add: is_switchbot_thermometer_meter_entry parse_device_data_short handleDiscovery_def)

text \<open>
  Claim C4, amended. When a record is classified as a meter and its decoding raises the
  malformed-data \<^verbatim>\<open>ValueError\<close>, no measurement is published for it and the gauges are
  as before; the error leaves \<^verbatim>\<open>handleDiscovery\<close> and the scan call, and since the loop
  catches the disconnect error only, the loop exits with it.
\<close>

theorem malformed_payload_ends_scan_loop:
  assumes "is_switchbot_thermometer d"
    and "parse_device_data d = Inl (ValueError_Malformed s)"
  shows "handleDiscovery d is_new_device is_new_data g = (Inl (ValueError_Malformed s), g) \<and>
         scan (Advertisement d is_new_device is_new_data # evs) g = (Inl (ValueError_Malformed s), g) \<and>
         main_loop ((Advertisement d is_new_device is_new_data # evs) # windows) g =
           (Exited (ValueError_Malformed s), g)"
  using assms by (simp add: handleDiscovery_def)

theorem malformed_payload_ends_scan_loop_witness:
  "is_switchbot_thermometer (meter_entry ''0d0054001064'') \<and>
   parse_device_data (meter_entry ''0d0054001064'') = Inl (ValueError_Malformed ''0d0054001064'') \<and>
   handleDiscovery (meter_entry ''0d0054001064'') True True no_metrics =
     (Inl (ValueError_Malformed ''0d0054001064''), no_metrics) \<and>
   scan (Advertisement (meter_entry ''0d0054001064'') True True # []) no_metrics =
     (Inl (ValueError_Malformed ''0d0054001064''), no_metrics) \<and>
   main_loop ((Advertisement (meter_entry ''0d0054001064'') True True # []) # []) no_metrics =
     (Exited (ValueError_Malformed ''0d0054001064''), no_metrics)"
proof -
  have h1: "is_switchbot_thermometer (meter_entry ''0d0054001064'')"
    by (rule is_switchbot_thermometer_meter_entry)
  have h2: "parse_device_data (meter_entry ''0d0054001064'') = Inl (ValueError_Malformed ''0d0054001064'')"
    by (rule parse_device_data_short)
  from h1 h2 malformed_payload_ends_scan_loop [OF h1 h2, of True True no_metrics "[]" "[]"]
  show ?thesis by blast
qed

section \<open>Determinism and shared state\<close>

text \<open>
  The classifier is not free of shared state. With the default log level a call on a
  meter appends a record to the root logger, and the record contains the name found in
  \<^verbatim>\<open>DEVICE_NAME_MAP\<close>: with another content of the dictionary the record is another.
\<close>

theorem shared_state_counterexample:
  "logger_output started = [] \<and>
   is_switchbot_thermometer_logged (meter_entry ''000d0000640381b2'') started =
     (True,
      started\<lparr>logger_output :=
        [LogRecord 20 ''%s is Switchbot thermometer''
           (''f2:0c:69:f4:56:af'', Some (''Haust'' @ [CHR 0xC3, CHR 0xBC] @ ''r''), - 71, False)]\<rparr>) \<and>
   is_switchbot_thermometer_logged (meter_entry ''000d0000640381b2'') (started\<lparr>name_map := []\<rparr>) =
     (True,
      started\<lparr>name_map := [], logger_output :=
        [LogRecord 20 ''%s is Switchbot thermometer''
           (''f2:0c:69:f4:56:af'', None, - 71, False)]\<rparr>)"
proof -
  have m: "\<not> \<not> startswith ''5900f20c69f456af'' SWITCHBOT_MANUFACTURER_ID"
    by (simp add: startswith_def SWITCHBOT_MANUFACTURER_ID_def)
  have a: "addr (meter_entry ''000d0000640381b2'') = ''f2:0c:69:f4:56:af''"
    "rssi (meter_entry ''000d0000640381b2'') = - 71"
    "connectable (meter_entry ''000d0000640381b2'') = False"
    by (simp_all add: meter_entry_def)
  have n: "map_of DEVICE_NAME_MAP ''f2:0c:69:f4:56:af'' = Some (''Haust'' @ [CHR 0xC3, CHR 0xBC] @ ''r'')"
    by (simp add: DEVICE_NAME_MAP_def)
  show ?thesis
    unfolding is_switchbot_thermometer_logged_def Let_def
    using m n
    by (simp add: get_scan_data_meter_entry meter_entry_scanData a SWITCHBOT_SERVICE_ID_def
          logging_log_def started_def)
qed

text \<open>
  Claim C10, amended. The results are deterministic: two records with the same scan data
  get the same classification, in whatever state the globals are, and it is the value of
  \<open>is_switchbot_thermometer\<close>; two records with the same service data get the same
  decoding result, and the decoder refers to no global. The classifier reads
  \<^verbatim>\<open>DEVICE_NAME_MAP\<close> and appends diagnostic records to the root logger; it leaves
  \<^verbatim>\<open>DEVICE_NAME_MAP\<close>, the log level and the gauges as they are.
\<close>

theorem classify_decode_results_deterministic:
  "(scanData d = scanData d' \<longrightarrow>
      fst (is_switchbot_thermometer_logged d w) = fst (is_switchbot_thermometer_logged d' w')) \<and>
   (map_of (rev (map snd (scanData d))) ''16b Service Data'' =
      map_of (rev (map snd (scanData d'))) ''16b Service Data'' \<longrightarrow>
      parse_device_data d = parse_device_data d') \<and>
   name_map (snd (is_switchbot_thermometer_logged d w)) = name_map w \<and>
   logger_level (snd (is_switchbot_thermometer_logged d w)) = logger_level w \<and>
   gauges (snd (is_switchbot_thermometer_logged d w)) = gauges w \<and>
   (\<exists>records. logger_output (snd (is_switchbot_thermometer_logged d w)) =
                logger_output w @ records) \<and>
   fst (is_switchbot_thermometer_logged d w) = is_switchbot_thermometer d"
proof -
  have a: "scanData d = scanData d' \<longrightarrow>
      fst (is_switchbot_thermometer_logged d w) = fst (is_switchbot_thermometer_logged d' w')"
    by (simp add: is_switchbot_thermometer_logged_result is_switchbot_thermometer_def
          get_scan_data_def)
  have b: "map_of (rev (map snd (scanData d))) ''16b Service Data'' =
      map_of (rev (map snd (scanData d'))) ''16b Service Data'' \<longrightarrow>
      parse_device_data d = parse_device_data d'"
    by (simp add: parse_device_data_def get_scan_data_map_of)
  from a b is_switchbot_thermometer_logged_frame [of d w]
    is_switchbot_thermometer_logged_output [of d w]
    is_switchbot_thermometer_logged_result [of d w]
  show ?thesis by blast
qed

theorem classify_decode_results_deterministic_witness:
  "scanData (meter_entry ''000d0000640381b2'') =
     scanData ((meter_entry ''000d0000640381b2'')\<lparr>addr := ''e3:06:1c:69:f5:67'', rssi := - 40\<rparr>) \<and>
   fst (is_switchbot_thermometer_logged (meter_entry ''000d0000640381b2'') started) =
     fst (is_switchbot_thermometer_logged
            ((meter_entry ''000d0000640381b2'')\<lparr>addr := ''e3:06:1c:69:f5:67'', rssi := - 40\<rparr>)
            (started\<lparr>name_map := [], logger_level := 10\<rparr>)) \<and>
   parse_device_data (meter_entry ''000d0000640381b2'') =
     parse_device_data ((meter_entry ''000d0000640381b2'')\<lparr>connectable := True\<rparr>)"
proof -
  have h1: "scanData (meter_entry ''000d0000640381b2'') =
     scanData ((meter_entry ''000d0000640381b2'')\<lparr>addr := ''e3:06:1c:69:f5:67'', rssi := - 40\<rparr>)"
    by simp
  have h2: "map_of (rev (map snd (scanData (meter_entry ''000d0000640381b2'')))) ''16b Service Data'' =
     map_of (rev (map snd (scanData ((meter_entry ''000d0000640381b2'')\<lparr>connectable := True\<rparr>))))
       ''16b Service Data''"
    by simp
  have c1: "fst (is_switchbot_thermometer_logged (meter_entry ''000d0000640381b2'') started) =
     fst (is_switchbot_thermometer_logged
            ((meter_entry ''000d0000640381b2'')\<lparr>addr := ''e3:06:1c:69:f5:67'', rssi := - 40\<rparr>)
            (started\<lparr>name_map := [], logger_level := 10\<rparr>))"
    by (rule classify_decode_results_deterministic [THEN conjunct1, THEN mp, OF h1])
  have c2: "parse_device_data (meter_entry ''000d0000640381b2'') =
     parse_device_data ((meter_entry ''000d0000640381b2'')\<lparr>connectable := True\<rparr>)"
    by (rule classify_decode_results_deterministic [THEN conjunct2, THEN conjunct1, THEN mp, OF h2])
  from h1 c1 c2 show ?thesis by blast
qed

end
